theory Spec2Isabelle
  imports Main "HOL-Library.Word"
begin

section \<open>The resource store (internal/static/static.go)\<close>

text \<open>
  Go strings and byte slices are byte sequences; both are modelled by \<open>string\<close>
  (a list of 8-bit characters). A Go \<open>map[string][]byte\<close> is a partial function.
\<close>

type_synonym bytes = string

record storage =
  assets :: "string \<rightharpoonup> bytes"
  templates :: "string \<rightharpoonup> bytes"

definition newStorage :: storage where
  "newStorage = \<lparr>assets = Map.empty, templates = Map.empty\<rparr>"

text \<open>
  \<open>func (s *storage) Add(filetype, filepath, content)\<close> mutates the receiver; the model
  returns the updated store. The package-level \<open>Add\<close>, \<open>Assets\<close> and \<open>Templates\<close> apply the
  methods to the single package-level store, which is the state passed here.
\<close>

definition Add :: "string \<Rightarrow> string \<Rightarrow> bytes \<Rightarrow> storage \<Rightarrow> storage" where
  "Add filetype filepath content s =
     (if filetype = ''static''
      then s\<lparr>assets := (assets s)(filepath \<mapsto> content)\<rparr>
      else s\<lparr>templates := (templates s)(filepath \<mapsto> content)\<rparr>)"

definition Assets :: "storage \<Rightarrow> (string \<rightharpoonup> bytes)" where
  "Assets s = assets s"

definition Templates :: "storage \<Rightarrow> (string \<rightharpoonup> bytes)" where
  "Templates s = templates s"

section \<open>Start-up: configuration, templates and routes (package main)\<close>

text \<open>
  The configuration type is declared outside the two source files; the record has the
  fields that \<open>main\<close> reads.
\<close>

record config =
  TemplatesDir :: string
  StaticDir :: string
  WipeChannels :: bool
  DisableGenerateInvoices :: bool
  DisablePayInvoices :: bool
  UseLeHTTPS :: bool
  BindAddr :: string
  Domain :: string

text \<open>
  Go visits the entries of a map in an order it does not fix. A \<open>range\<close> loop over the
  map \<open>m\<close> is modelled by a list of its entries, each key once, in the order visited.
\<close>

definition rangeOver :: "('k \<rightharpoonup> 'v) \<Rightarrow> ('k \<times> 'v) list \<Rightarrow> bool" where
  "rangeOver m es = (distinct (map fst es) \<and> map_of es = m)"

subsection \<open>Store-mode template compilation\<close>

text \<open>
  The loop of \<open>main\<close> over \<open>static.Templates()\<close>:
  \<^verbatim>\<open>_, err := faucetTemplates.New(filepath[1:]).Parse(string(content))\<close>.
  The template set is keyed by name: it maps each template name to the text compiled
  under it, and compiling a name that is already there replaces the earlier template.
  The templates that a text defines inside itself are the library's business and are not
  followed. \<open>filepath[1:]\<close> drops the first byte of the path, whatever it is, and panics on
  the empty path. Whether the template library accepts a text is the parameter
  \<open>accepts\<close>.
\<close>

datatype templateError = SliceBoundsPanic | ParseFailed

fun storeTemplates ::
  "(bytes \<Rightarrow> bool) \<Rightarrow> (string \<times> bytes) list \<Rightarrow> (string \<rightharpoonup> bytes)
     \<Rightarrow> templateError + (string \<rightharpoonup> bytes)" where
  "storeTemplates accepts [] ts = Inr ts"
| "storeTemplates accepts ((filepath, content) # rest) ts =
     (if filepath = [] then Inl SliceBoundsPanic
      else if \<not> accepts content then Inl ParseFailed
      else storeTemplates accepts rest (ts(tl filepath \<mapsto> content)))"


subsection \<open>Routes\<close>

datatype handlerRef = FaucetHome | InfoPage | ToolsPage | StaticFileServer string | StaticAsset

record route =
  tpl :: string
  isPrefix :: bool
  methods :: "string list"
  handler :: handlerRef

text \<open>
  The routes \<open>main\<close> registers on the router, in order. \<open>assetKeys\<close> are the keys of
  \<open>static.Assets()\<close> in the order the \<open>range\<close> loop visits them; every asset route gets the
  same handler, which finds its key in the request path.
\<close>

definition installRoutes :: "config \<Rightarrow> string list \<Rightarrow> route list" where
  "installRoutes cfg assetKeys =
     [\<lparr>tpl = ''/'', isPrefix = False, methods = [''POST'', ''GET''], handler = FaucetHome\<rparr>,
      \<lparr>tpl = ''/info'', isPrefix = False, methods = [''GET''], handler = InfoPage\<rparr>]
     @ (if \<not> (DisableGenerateInvoices cfg \<and> DisablePayInvoices cfg)
        then [\<lparr>tpl = ''/tools'', isPrefix = False, methods = [''POST'', ''GET''],
               handler = ToolsPage\<rparr>]
        else [])
     @ (if StaticDir cfg \<noteq> ''''
        then [\<lparr>tpl = ''/static/'', isPrefix = True, methods = [],
               handler = StaticFileServer (StaticDir cfg)\<rparr>]
        else map (\<lambda>filepath. \<lparr>tpl = ''/static'' @ filepath, isPrefix = False, methods = [],
                                handler = StaticAsset\<rparr>) assetKeys)"

subsection \<open>Listeners\<close>

text \<open>
  The constants of \<open>crypto/tls\<close> that the server configuration names: the protocol
  version as its 16-bit code, the cipher suites of TLS 1.0 to 1.2 by name, with the key
  agreement each name states. \<open>time.Duration\<close> counts nanoseconds.
\<close>

definition VersionTLS12 :: "16 word" where
  "VersionTLS12 = 0x0303"

datatype cipherSuite =
    TLS_RSA_WITH_RC4_128_SHA
  | TLS_RSA_WITH_3DES_EDE_CBC_SHA
  | TLS_RSA_WITH_AES_128_CBC_SHA
  | TLS_RSA_WITH_AES_256_CBC_SHA
  | TLS_RSA_WITH_AES_128_CBC_SHA256
  | TLS_RSA_WITH_AES_128_GCM_SHA256
  | TLS_RSA_WITH_AES_256_GCM_SHA384
  | TLS_ECDHE_ECDSA_WITH_RC4_128_SHA
  | TLS_ECDHE_ECDSA_WITH_AES_128_CBC_SHA
  | TLS_ECDHE_ECDSA_WITH_AES_256_CBC_SHA
  | TLS_ECDHE_RSA_WITH_RC4_128_SHA
  | TLS_ECDHE_RSA_WITH_3DES_EDE_CBC_SHA
  | TLS_ECDHE_RSA_WITH_AES_128_CBC_SHA
  | TLS_ECDHE_RSA_WITH_AES_256_CBC_SHA
  | TLS_ECDHE_ECDSA_WITH_AES_128_CBC_SHA256
  | TLS_ECDHE_RSA_WITH_AES_128_CBC_SHA256
  | TLS_ECDHE_RSA_WITH_AES_128_GCM_SHA256
  | TLS_ECDHE_ECDSA_WITH_AES_128_GCM_SHA256
  | TLS_ECDHE_RSA_WITH_AES_256_GCM_SHA384
  | TLS_ECDHE_ECDSA_WITH_AES_256_GCM_SHA384
  | TLS_ECDHE_RSA_WITH_CHACHA20_POLY1305
  | TLS_ECDHE_ECDSA_WITH_CHACHA20_POLY1305

fun ecdhe :: "cipherSuite \<Rightarrow> bool" where
  "ecdhe TLS_RSA_WITH_RC4_128_SHA = False"
| "ecdhe TLS_RSA_WITH_3DES_EDE_CBC_SHA = False"
| "ecdhe TLS_RSA_WITH_AES_128_CBC_SHA = False"
| "ecdhe TLS_RSA_WITH_AES_256_CBC_SHA = False"
| "ecdhe TLS_RSA_WITH_AES_128_CBC_SHA256 = False"
| "ecdhe TLS_RSA_WITH_AES_128_GCM_SHA256 = False"
| "ecdhe TLS_RSA_WITH_AES_256_GCM_SHA384 = False"
| "ecdhe _ = True"

definition Second :: int where
  "Second = 1000000000"

datatype app = Mux "route list" | AutocertHTTPHandler string

record manager =
  Cache :: string
  HostPolicy :: "string list"

record tlsConfig =
  GetCertificate :: manager
  MinVersion :: "16 word"
  CipherSuites :: "cipherSuite list"

record server =
  Handler :: app
  WriteTimeout :: int
  ReadTimeout :: int
  Addr :: string
  TLSConfig :: tlsConfig

text \<open>The \<open>http.Server\<close> that \<open>main\<close> builds in secure mode, for the router \<open>r\<close>.\<close>

definition httpServer :: "config \<Rightarrow> route list \<Rightarrow> server" where
  "httpServer cfg r =
     \<lparr>Handler = Mux r,
      WriteTimeout = 30 * Second,
      ReadTimeout = 30 * Second,
      Addr = '':https'',
      TLSConfig =
        \<lparr>GetCertificate = \<lparr>Cache = ''certs'', HostPolicy = [Domain cfg]\<rparr>,
         MinVersion = VersionTLS12,
         CipherSuites =
           [TLS_ECDHE_ECDSA_WITH_CHACHA20_POLY1305,
            TLS_ECDHE_ECDSA_WITH_AES_256_GCM_SHA384,
            TLS_ECDHE_ECDSA_WITH_AES_128_GCM_SHA256,
            TLS_ECDHE_RSA_WITH_CHACHA20_POLY1305,
            TLS_ECDHE_RSA_WITH_AES_256_GCM_SHA384,
            TLS_ECDHE_RSA_WITH_AES_128_GCM_SHA256]\<rparr>\<rparr>"

subsection \<open>The run of \<open>main\<close>\<close>

text \<open>
  What \<open>main\<close> gets from outside the two source files is collected in an environment:
  the result of \<open>loadConfig\<close> (\<open>None\<close> for an error), whether \<open>ParseGlob\<close> succeeds,
  which texts the template parser accepts, the order in which \<open>range\<close> visits a map,
  whether \<open>newLightningFaucet\<close> and \<open>CloseAllChannels\<close> succeed, whether
  \<open>ListenAndServeTLS\<close> returns (it returns only with an error) and whether an interrupt
  signal arrives.
\<close>

record env =
  loadConfig :: "config option"
  parseGlob :: bool
  parses :: "bytes \<Rightarrow> bool"
  order :: "(string \<rightharpoonup> bytes) \<Rightarrow> (string \<times> bytes) list"
  newLightningFaucet :: bool
  closeAllChannels :: bool
  serveTLSReturns :: bool
  interrupted :: bool

text \<open>
  A run is the list of the observable steps \<open>main\<close> takes, in order, and how the
  process ends: with an exit code (0 when \<open>main\<close> returns, the argument of \<open>os.Exit\<close>,
  2 for an unrecovered panic), or not at all (\<open>Running\<close>: serving TLS, or waiting for a
  signal that does not come). \<open>GoListenAndServe\<close> is the statement
  \<^verbatim>\<open>go http.ListenAndServe(addr, handler)\<close>, a plain listener started in the background;
  \<open>ListenAndServeTLS\<close> is the call in the foreground.
\<close>

datatype level = LevelInfo | LevelCritical

datatype templateSet = Globbed | Compiled "string \<rightharpoonup> bytes"

datatype event =
    Log level
  | NewLightningFaucet templateSet
  | FaucetStart
  | GoListenAndServe string app
  | ListenAndServeTLS server

datatype outcome = Exit nat | Running

definition loadTemplates :: "env \<Rightarrow> config \<Rightarrow> storage \<Rightarrow> (event list \<times> outcome) + templateSet" where
  "loadTemplates e cfg s =
     (if TemplatesDir cfg \<noteq> ''''
      then (if parseGlob e then Inr Globbed else Inl ([], Exit 2))
      else (case storeTemplates (parses e) (order e (Templates s)) [''faucet'' \<mapsto> ''''] of
              Inl SliceBoundsPanic \<Rightarrow> Inl ([], Exit 2)
            | Inl ParseFailed \<Rightarrow> Inl ([Log LevelCritical], Exit 0)
            | Inr ts \<Rightarrow> Inr (Compiled ts)))"

definition listen :: "env \<Rightarrow> config \<Rightarrow> route list \<Rightarrow> event list \<times> outcome" where
  "listen e cfg r =
     (if \<not> UseLeHTTPS cfg
      then ([Log LevelInfo, GoListenAndServe (BindAddr cfg) (Mux r)],
            if interrupted e then Exit 0 else Running)
      else ([Log LevelInfo,
             GoListenAndServe (BindAddr cfg) (AutocertHTTPHandler (Domain cfg)),
             ListenAndServeTLS (httpServer cfg r)]
            @ (if serveTLSReturns e then [Log LevelCritical] else []),
            if serveTLSReturns e then Exit 1 else Running))"

definition main :: "env \<Rightarrow> storage \<Rightarrow> event list \<times> outcome" where
  "main e s =
     (case loadConfig e of
        None \<Rightarrow> ([], Exit 0)
      | Some cfg \<Rightarrow>
          (case loadTemplates e cfg s of
             Inl stop \<Rightarrow> stop
           | Inr faucetTemplates \<Rightarrow>
               if \<not> newLightningFaucet e
               then ([NewLightningFaucet faucetTemplates, Log LevelCritical], Exit 1)
               else if WipeChannels cfg
               then (if closeAllChannels e
                     then ([NewLightningFaucet faucetTemplates, Log LevelInfo], Exit 0)
                     else ([NewLightningFaucet faucetTemplates, Log LevelInfo, Log LevelCritical],
                           Exit 1))
               else (let r = installRoutes cfg (map fst (order e (Assets s)));
                         (evs, out) = listen e cfg r
                     in (NewLightningFaucet faucetTemplates # FaucetStart # evs, out))))"


fun tlsListeners :: "event list \<Rightarrow> server list" where
  "tlsListeners [] = []"
| "tlsListeners (ListenAndServeTLS srv # evs) = srv # tlsListeners evs"
| "tlsListeners (_ # evs) = tlsListeners evs"

section \<open>Serving a request\<close>

text \<open>
  A request is its method and the path of its URL (\<open>r.Method\<close>, \<open>r.URL.Path\<close>); it
  carries no headers, so it is neither a conditional nor a range request.
\<close>

record request =
  reqMethod :: string
  reqPath :: string

text \<open>
  What a request is answered with. The faucet pages and the directory file server are
  outside the two source files and stay symbolic; \<open>ServeContent name content\<close> is the call
  \<^verbatim>\<open>http.ServeContent(w, r, name, time.Now(), bytes.NewReader(content))\<close>;
  \<open>NothingWritten\<close> is a handler that returns without touching the response.
\<close>

datatype result =
    MovedPermanently string
  | NotFound
  | MethodNotAllowed
  | FaucetPage handlerRef
  | FromDirectory string string
  | ServeContent string bytes
  | NothingWritten
  | HandlerPanic

subsection \<open>The asset handler of \<open>main\<close>\<close>

text \<open>\<open>strings.Split(s, sep)\<close> for a separator of one byte: never an empty list.\<close>

fun Split :: "string \<Rightarrow> char \<Rightarrow> string list" where
  "Split [] sep = [[]]"
| "Split (c # cs) sep =
     (if c = sep then [] # Split cs sep
      else (case Split cs sep of [] \<Rightarrow> [[c]] | x # xs \<Rightarrow> (c # x) # xs))"

text \<open>
  The closure registered for every asset route. It reads the store when the request
  arrives (\<open>assetsNow\<close>), not when the route was installed. \<open>r.URL.Path[7:]\<close> panics on a
  path shorter than seven bytes.
\<close>

definition staticAssetHandler :: "(string \<rightharpoonup> bytes) \<Rightarrow> request \<Rightarrow> result" where
  "staticAssetHandler assetsNow r =
     (if length (reqPath r) < 7 then HandlerPanic
      else (let filepath = drop 7 (reqPath r);
                filepathSlice = Split filepath CHR ''/'';
                filename = last filepathSlice
            in case assetsNow filepath of
                 Some content \<Rightarrow> ServeContent filename content
               | None \<Rightarrow> NothingWritten))"

subsection \<open>The router and the standard library\<close>

text \<open>
  The router (gorilla/mux) and \<open>net/http\<close> are libraries; the model has what the routes
  of \<open>main\<close> use. The router compiles every route template into a regular expression.
  A template that is not valid UTF-8 does not compile, and its route never matches. A
  template without braces matches literally. Braces mark variables: a template whose
  braces are unbalanced is rejected at registration and its route never matches, and
  how a template with variables matches is the parameter \<open>varMatch\<close>. The tables of
  \<open>mime.TypeByExtension\<close> (the empty string for an unknown extension) and
  \<open>http.DetectContentType\<close> are parameters as well.
\<close>

record lib =
  varMatch :: "route \<Rightarrow> string \<Rightarrow> bool"
  typeByExtension :: "string \<Rightarrow> string"
  detectContentType :: "bytes \<Rightarrow> string"

text \<open>
  Valid UTF-8, byte by byte: one byte below 0x80, or a lead byte 0xC2 to 0xF4 followed by
  one to three continuation bytes, the first of them in the narrower range that rules
  out overlong forms, surrogates and code points above U+10FFFF. \<open>utf8Bytes need lo hi\<close>
  expects \<open>need\<close> more continuation bytes, the next of them between \<open>lo\<close> and \<open>hi\<close>.
\<close>

definition between :: "nat \<Rightarrow> char \<Rightarrow> nat \<Rightarrow> bool" where
  "between lo c hi = (lo \<le> of_char c \<and> (of_char c :: nat) \<le> hi)"

fun utf8Bytes :: "nat \<Rightarrow> nat \<Rightarrow> nat \<Rightarrow> string \<Rightarrow> bool" where
  "utf8Bytes need lo hi [] = (need = 0)"
| "utf8Bytes need lo hi (a # s) =
     (if 0 < need then between lo a hi \<and> utf8Bytes (need - 1) 0x80 0xBF s
      else if between 0x00 a 0x7F then utf8Bytes 0 0x80 0xBF s
      else if between 0xC2 a 0xDF then utf8Bytes 1 0x80 0xBF s
      else if between 0xE0 a 0xE0 then utf8Bytes 2 0xA0 0xBF s
      else if between 0xE1 a 0xEC then utf8Bytes 2 0x80 0xBF s
      else if between 0xED a 0xED then utf8Bytes 2 0x80 0x9F s
      else if between 0xEE a 0xEF then utf8Bytes 2 0x80 0xBF s
      else if between 0xF0 a 0xF0 then utf8Bytes 3 0x90 0xBF s
      else if between 0xF1 a 0xF3 then utf8Bytes 3 0x80 0xBF s
      else if between 0xF4 a 0xF4 then utf8Bytes 3 0x80 0x8F s
      else False)"

definition validUTF8 :: "string \<Rightarrow> bool" where
  "validUTF8 s = utf8Bytes 0 0x80 0xBF s"

fun bracesBalanced :: "nat \<Rightarrow> string \<Rightarrow> bool" where
  "bracesBalanced level [] = (level = 0)"
| "bracesBalanced level (c # cs) =
     (if c = CHR ''{'' then bracesBalanced (Suc level) cs
      else if c = CHR ''}'' then (0 < level \<and> bracesBalanced (level - 1) cs)
      else bracesBalanced level cs)"

definition literal :: "string \<Rightarrow> bool" where
  "literal t = (CHR ''{'' \<notin> set t \<and> CHR ''}'' \<notin> set t)"

definition pathMatches :: "lib \<Rightarrow> route \<Rightarrow> string \<Rightarrow> bool" where
  "pathMatches l rt p =
     (if \<not> validUTF8 (tpl rt) then False
      else if literal (tpl rt)
      then (if isPrefix rt then take (length (tpl rt)) p = tpl rt else p = tpl rt)
      else (bracesBalanced 0 (tpl rt) \<and> varMatch l rt p))"


definition methodMatches :: "route \<Rightarrow> string \<Rightarrow> bool" where
  "methodMatches rt m = (methods rt = [] \<or> m \<in> set (methods rt))"

text \<open>
  The router first brings the path to its canonical form (\<open>path.Clean\<close> on the rooted
  path, a trailing slash kept) and answers a path that was not canonical with a
  redirect to the canonical one.
\<close>

fun cleanElems :: "string list \<Rightarrow> string list \<Rightarrow> string list" where
  "cleanElems acc [] = rev acc"
| "cleanElems acc (x # xs) =
     (if x = [] \<or> x = ''.'' then cleanElems acc xs
      else if x = ''..'' then cleanElems (case acc of [] \<Rightarrow> [] | _ # up \<Rightarrow> up) xs
      else cleanElems (x # acc) xs)"

fun joinSlash :: "string list \<Rightarrow> string" where
  "joinSlash [] = []"
| "joinSlash [x] = x"
| "joinSlash (x # y # ys) = x @ CHR ''/'' # joinSlash (y # ys)"

definition cleanPath :: "string \<Rightarrow> string" where
  "cleanPath p =
     (if p = [] then ''/''
      else (let q = (if hd p \<noteq> CHR ''/'' then CHR ''/'' # p else p);
                np = CHR ''/'' # joinSlash (cleanElems [] (Split q CHR ''/''))
            in if last q = CHR ''/'' \<and> np \<noteq> ''/'' then np @ ''/'' else np))"

definition runHandler :: "(string \<rightharpoonup> bytes) \<Rightarrow> handlerRef \<Rightarrow> request \<Rightarrow> result" where
  "runHandler assetsNow h r =
     (case h of
        StaticAsset \<Rightarrow> staticAssetHandler assetsNow r
      | StaticFileServer dir \<Rightarrow>
          (if take 8 (reqPath r) = ''/static/'' then FromDirectory dir (drop 8 (reqPath r))
           else NotFound)
      | _ \<Rightarrow> FaucetPage h)"

text \<open>
  Dispatch: the first route, in registration order, whose path and methods match,
  handles the request.
\<close>

definition ServeHTTP :: "lib \<Rightarrow> route list \<Rightarrow> (string \<rightharpoonup> bytes) \<Rightarrow> request \<Rightarrow> result" where
  "ServeHTTP l routes assetsNow r =
     (if cleanPath (reqPath r) \<noteq> reqPath r then MovedPermanently (cleanPath (reqPath r))
      else (case find (\<lambda>rt. pathMatches l rt (reqPath r) \<and> methodMatches rt (reqMethod r)) routes of
              Some rt \<Rightarrow> runHandler assetsNow (handler rt) r
            | None \<Rightarrow>
                if list_ex (\<lambda>rt. pathMatches l rt (reqPath r)) routes then MethodNotAllowed
                else NotFound))"

text \<open>
  The response on the wire, where this file or the standard library decides it.
  \<open>http.ServeContent\<close>, for a request that is neither conditional nor a range request,
  answers 200 with the content (no body for HEAD) and takes the content type from the
  extension of the name, or from the content when the extension is unknown. A handler
  that writes nothing leaves the server's default: 200 with an empty body.
\<close>

fun Ext :: "string \<Rightarrow> string" where
  "Ext [] = []"
| "Ext (c # cs) =
     (case Ext cs of
        [] \<Rightarrow> if CHR ''/'' \<notin> set cs \<and> c = CHR ''.'' then c # cs else []
      | e # es \<Rightarrow> e # es)"

record response =
  statusCode :: nat
  contentType :: string
  body :: bytes

definition contentTypeOf :: "lib \<Rightarrow> string \<Rightarrow> bytes \<Rightarrow> string" where
  "contentTypeOf l name content =
     (if typeByExtension l (Ext name) = [] then detectContentType l content
      else typeByExtension l (Ext name))"

fun reply :: "lib \<Rightarrow> request \<Rightarrow> result \<Rightarrow> response option" where
  "reply l r (ServeContent name content) =
     Some \<lparr>statusCode = 200, contentType = contentTypeOf l name content,
           body = (if reqMethod r = ''HEAD'' then [] else content)\<rparr>"
| "reply l r NothingWritten = Some \<lparr>statusCode = 200, contentType = [], body = []\<rparr>"
| "reply l r NotFound =
     Some \<lparr>statusCode = 404, contentType = ''text/plain; charset=utf-8'',
           body = ''404 page not found'' @ [CHR 0x0A]\<rparr>"
| "reply l r _ = None"

section \<open>Runs that reach the listeners, and example inputs\<close>

text \<open>
  A run starts up when it gets past initialisation: the configuration loads, the
  templates compile, the faucet is created and the channels are not to be wiped. Only
  then does \<open>main\<close> build the router and start listeners.
\<close>

definition startsUp :: "env \<Rightarrow> storage \<Rightarrow> bool" where
  "startsUp e s =
     (case loadConfig e of
        None \<Rightarrow> False
      | Some cfg \<Rightarrow>
          (case loadTemplates e cfg s of
             Inl _ \<Rightarrow> False
           | Inr _ \<Rightarrow> newLightningFaucet e \<and> \<not> WipeChannels cfg))"

text \<open>
  Inputs for the examples: an iteration order that visits the keys of a map in the
  order of a given list, a configuration with every switch off, an environment in which
  everything outside succeeds and the template parser rejects exactly the text \<open>{{\<close>,
  and a library whose type table knows the extension \<open>.css\<close> and whose
  variable matching knows the template \<open>/static/{x}\<close> (one path segment after
  \<open>/static/\<close>).
\<close>

definition visit :: "string list \<Rightarrow> (string \<rightharpoonup> bytes) \<Rightarrow> (string \<times> bytes) list" where
  "visit keys m = concat (map (\<lambda>k. case m k of None \<Rightarrow> [] | Some c \<Rightarrow> [(k, c)]) keys)"

definition exampleConfig :: config where
  "exampleConfig =
     \<lparr>TemplatesDir = '''', StaticDir = '''', WipeChannels = False,
      DisableGenerateInvoices = False, DisablePayInvoices = False, UseLeHTTPS = False,
      BindAddr = '':8080'', Domain = ''faucet.example.org''\<rparr>"

definition exampleEnv :: "config \<Rightarrow> string list \<Rightarrow> env" where
  "exampleEnv cfg keys =
     \<lparr>loadConfig = Some cfg, parseGlob = True, parses = (\<lambda>text. text \<noteq> ''{{''),
      order = visit keys, newLightningFaucet = True, closeAllChannels = True,
      serveTLSReturns = False, interrupted = False\<rparr>"

definition exampleLib :: lib where
  "exampleLib =
     \<lparr>varMatch = (\<lambda>rt p. tpl rt = ''/static/{x}'' \<and> take 8 p = ''/static/''
                     \<and> drop 8 p \<noteq> [] \<and> CHR ''/'' \<notin> set (drop 8 p)),
      typeByExtension = (\<lambda>ext. if ext = ''.css'' then ''text/css; charset=utf-8'' else []),
      detectContentType = (\<lambda>content. ''application/octet-stream'')\<rparr>"

section \<open>Properties of the resource store\<close>

text \<open>
  Claim C4. Adding the same path twice to the same namespace leaves the store exactly as
  the second Add alone would: the first content is overwritten, and a lookup of the path
  through \<open>Assets\<close> (filetype \<open>static\<close>) or \<open>Templates\<close> (any other filetype) yields the
  second content.
\<close>

theorem Add_last_write_wins:
  "Add ns p c2 (Add ns p c1 s) = Add ns p c2 s
   \<and> (ns = ''static'' \<longrightarrow> Assets (Add ns p c2 (Add ns p c1 s)) p = Some c2)
   \<and> (ns \<noteq> ''static'' \<longrightarrow> Templates (Add ns p c2 (Add ns p c1 s)) p = Some c2)"
  by (simp add: Add_def Assets_def Templates_def)

theorem Add_last_write_wins_witness:
  "Add ''static'' ''/css/a.css'' ''body{}'' (Add ''static'' ''/css/a.css'' ''p{}'' newStorage)
     = Add ''static'' ''/css/a.css'' ''body{}'' newStorage
   \<and> Assets (Add ''static'' ''/css/a.css'' ''body{}''
         (Add ''static'' ''/css/a.css'' ''p{}'' newStorage)) ''/css/a.css'' = Some ''body{}''
   \<and> Templates (Add ''template'' ''/index.html'' ''new''
         (Add ''template'' ''/index.html'' ''old'' newStorage)) ''/index.html'' = Some ''new''"
  using Add_last_write_wins [of "''static''" "''/css/a.css''" "''body{}''" "''p{}''" newStorage]
    Add_last_write_wins [of "''template''" "''/index.html''" "''new''" "''old''" newStorage]
  by blast

text \<open>
  Claim C9. \<open>Add\<close> stores the entry in the asset namespace exactly when the filetype is
  the string \<open>static\<close>, and in the template namespace for every other filetype; the
  namespace it does not choose is left as it was. So a path that was in neither namespace
  is afterwards in the asset namespace if and only if the filetype is \<open>static\<close>, and
  the filetypes \<open>asset\<close>, \<open>Static\<close> and the empty string all select the template
  namespace.
\<close>

theorem Add_namespace:
  "Assets (Add ft p c s) = (if ft = ''static'' then (Assets s)(p \<mapsto> c) else Assets s)
   \<and> Templates (Add ft p c s) = (if ft = ''static'' then Templates s else (Templates s)(p \<mapsto> c))
   \<and> (Assets s p = None \<longrightarrow> (Assets (Add ft p c s) p = Some c \<longleftrightarrow> ft = ''static''))
   \<and> (Templates s p = None \<longrightarrow> (Templates (Add ft p c s) p = Some c \<longleftrightarrow> ft \<noteq> ''static''))
   \<and> (ft \<in> {''asset'', ''Static'', ''''} \<longrightarrow>
        Templates (Add ft p c s) p = Some c \<and> Assets (Add ft p c s) = Assets s)"
  by (auto simp: Add_def Assets_def Templates_def)

theorem Add_namespace_witness:
  "Assets (Add ''static'' ''/a'' ''x'' newStorage) ''/a'' = Some ''x''
   \<and> Templates (Add ''static'' ''/a'' ''x'' newStorage) ''/a'' = None
   \<and> Assets (Add ''asset'' ''/a'' ''x'' newStorage) ''/a'' = None
   \<and> Templates (Add ''asset'' ''/a'' ''x'' newStorage) ''/a'' = Some ''x''
   \<and> Templates (Add ''Static'' ''/a'' ''x'' newStorage) ''/a'' = Some ''x''
   \<and> Templates (Add '''' ''/a'' ''x'' newStorage) ''/a'' = Some ''x''"
  using Add_namespace [of "''static''" "''/a''" "''x''" newStorage]
    Add_namespace [of "''asset''" "''/a''" "''x''" newStorage]
    Add_namespace [of "''Static''" "''/a''" "''x''" newStorage]
    Add_namespace [of "''''" "''/a''" "''x''" newStorage]
  by (simp add: newStorage_def Assets_def Templates_def)

section \<open>Properties of start-up\<close>

subsection \<open>Auxiliary facts\<close>

lemma rangeOver_iff: "rangeOver m es \<Longrightarrow> (m p = Some c) = ((p, c) \<in> set es)"
  by (auto simp: rangeOver_def)


lemma storeTemplates_fail:
  "(\<And>p c. (p, c) \<in> set es \<Longrightarrow> p \<noteq> []) \<Longrightarrow> (q, d) \<in> set es \<Longrightarrow> \<not> acc d \<Longrightarrow>
     storeTemplates acc es ts = Inl ParseFailed"
proof (induction es arbitrary: ts)
  case Nil
  then show ?case by simp
next
  case (Cons x es)
  obtain p c where x: "x = (p, c)" by (cases x)
  from Cons.prems(1) [of p c] x have ne: "p \<noteq> []" by auto
  show ?case
  proof (cases "acc c")
    case False
    with ne x show ?thesis by simp
  next
    case True
    with Cons.prems x have "(q, d) \<in> set es" by auto
    then have "storeTemplates acc es (ts(tl p \<mapsto> c)) = Inl ParseFailed"
      using Cons.prems by (intro Cons.IH) auto
    with True ne x show ?thesis by simp
  qed
qed


lemma main_started:
  assumes "loadConfig e = Some cfg" and "startsUp e s"
  shows "\<exists>ts. fst (main e s) = NewLightningFaucet ts # FaucetStart
             # fst (listen e cfg (installRoutes cfg (map fst (order e (Assets s)))))"
  using assms
  by (auto simp: startsUp_def main_def Let_def split: sum.splits prod.splits)

lemma tls_event:
  "ListenAndServeTLS srv \<in> set (fst (main e s)) \<Longrightarrow> \<exists>cfg r. srv = httpServer cfg r"
  by (auto simp: main_def loadTemplates_def listen_def Let_def
      split: option.splits sum.splits if_splits templateError.splits prod.splits)

lemmas example_defs =
  exampleConfig_def exampleEnv_def visit_def newStorage_def Add_def Assets_def Templates_def

subsection \<open>The tools route\<close>

text \<open>
  Claim C10. The router that \<open>main\<close> builds has a route for the path \<open>/tools\<close> if and
  only if invoice generation and invoice payment are not both disabled; when it is
  there, it is the route to the tools page for POST and GET. This holds whatever the
  asset keys are, since every asset route begins with \<open>/static\<close>.
\<close>

theorem tools_route_iff:
  "(''/tools'' \<in> set (map tpl (installRoutes cfg assetKeys)))
     = (\<not> (DisableGenerateInvoices cfg \<and> DisablePayInvoices cfg))
   \<and> (\<lparr>tpl = ''/tools'', isPrefix = False, methods = [''POST'', ''GET''], handler = ToolsPage\<rparr>
         \<in> set (installRoutes cfg assetKeys))
     = (\<not> (DisableGenerateInvoices cfg \<and> DisablePayInvoices cfg))"
  by (auto simp: installRoutes_def)

theorem tools_route_iff_witness:
  "''/tools'' \<in> set (map tpl (installRoutes exampleConfig [''/css/a.css'']))
   \<and> ''/tools'' \<in> set (map tpl
        (installRoutes (exampleConfig\<lparr>DisableGenerateInvoices := True\<rparr>) [''/css/a.css'']))
   \<and> ''/tools'' \<in> set (map tpl
        (installRoutes (exampleConfig\<lparr>DisablePayInvoices := True\<rparr>) [''/css/a.css'']))
   \<and> ''/tools'' \<notin> set (map tpl
        (installRoutes (exampleConfig\<lparr>DisableGenerateInvoices := True, DisablePayInvoices := True\<rparr>)
           [''/css/a.css'']))"
  using tools_route_iff [of exampleConfig "[''/css/a.css'']"]
    tools_route_iff [of "exampleConfig\<lparr>DisableGenerateInvoices := True\<rparr>" "[''/css/a.css'']"]
    tools_route_iff [of "exampleConfig\<lparr>DisablePayInvoices := True\<rparr>" "[''/css/a.css'']"]
    tools_route_iff [of "exampleConfig\<lparr>DisableGenerateInvoices := True, DisablePayInvoices := True\<rparr>"
      "[''/css/a.css'']"]
  by (simp add: exampleConfig_def)

subsection \<open>The TLS configuration\<close>

text \<open>
  Claim C7. Every TLS server that a run of \<open>main\<close> starts has the minimum protocol
  version TLS 1.2 (code 0x0303), exactly the six listed cipher suites, all of them
  distinct and with ECDHE key agreement, and read and write timeouts of 30 seconds;
  nothing of this depends on the configuration or the environment, so it is the same
  in every run. A run that starts up with secure mode on does start such a server.
\<close>

theorem tls_configuration:
  "(ListenAndServeTLS srv \<in> set (fst (main e s)) \<longrightarrow>
      MinVersion (TLSConfig srv) = VersionTLS12
      \<and> VersionTLS12 = 0x0303
      \<and> CipherSuites (TLSConfig srv) =
          [TLS_ECDHE_ECDSA_WITH_CHACHA20_POLY1305,
           TLS_ECDHE_ECDSA_WITH_AES_256_GCM_SHA384,
           TLS_ECDHE_ECDSA_WITH_AES_128_GCM_SHA256,
           TLS_ECDHE_RSA_WITH_CHACHA20_POLY1305,
           TLS_ECDHE_RSA_WITH_AES_256_GCM_SHA384,
           TLS_ECDHE_RSA_WITH_AES_128_GCM_SHA256]
      \<and> length (CipherSuites (TLSConfig srv)) = 6
      \<and> distinct (CipherSuites (TLSConfig srv))
      \<and> list_all ecdhe (CipherSuites (TLSConfig srv))
      \<and> WriteTimeout srv = 30 * Second
      \<and> ReadTimeout srv = 30 * Second
      \<and> 30 * Second = 30000000000)
   \<and> (loadConfig e = Some cfg \<and> startsUp e s \<and> UseLeHTTPS cfg \<longrightarrow>
        tlsListeners (fst (main e s))
          = [httpServer cfg (installRoutes cfg (map fst (order e (Assets s))))]
        \<and> ListenAndServeTLS (httpServer cfg (installRoutes cfg (map fst (order e (Assets s)))))
            \<in> set (fst (main e s)))"
proof (intro conjI impI)
  assume "loadConfig e = Some cfg \<and> startsUp e s \<and> UseLeHTTPS cfg"
  then obtain ts where tr: "fst (main e s) = NewLightningFaucet ts # FaucetStart
      # fst (listen e cfg (installRoutes cfg (map fst (order e (Assets s)))))"
    and secure: "UseLeHTTPS cfg"
    using main_started [of e cfg s] by blast
  show "tlsListeners (fst (main e s))
      = [httpServer cfg (installRoutes cfg (map fst (order e (Assets s))))]"
    using tr secure by (simp add: listen_def)
  show "ListenAndServeTLS (httpServer cfg (installRoutes cfg (map fst (order e (Assets s)))))
      \<in> set (fst (main e s))"
    using tr secure by (simp add: listen_def)
next
  assume "ListenAndServeTLS srv \<in> set (fst (main e s))"
  then obtain cfg' r where srv: "srv = httpServer cfg' r" using tls_event by blast
  show "MinVersion (TLSConfig srv) = VersionTLS12" by (simp add: srv httpServer_def)
  show "VersionTLS12 = 0x0303" by (simp add: VersionTLS12_def)
  show "CipherSuites (TLSConfig srv) =
          [TLS_ECDHE_ECDSA_WITH_CHACHA20_POLY1305,
           TLS_ECDHE_ECDSA_WITH_AES_256_GCM_SHA384,
           TLS_ECDHE_ECDSA_WITH_AES_128_GCM_SHA256,
           TLS_ECDHE_RSA_WITH_CHACHA20_POLY1305,
           TLS_ECDHE_RSA_WITH_AES_256_GCM_SHA384,
           TLS_ECDHE_RSA_WITH_AES_128_GCM_SHA256]"
    by (simp add: srv httpServer_def)
  show "length (CipherSuites (TLSConfig srv)) = 6" by (simp add: srv httpServer_def)
  show "distinct (CipherSuites (TLSConfig srv))" by (simp add: srv httpServer_def)
  show "list_all ecdhe (CipherSuites (TLSConfig srv))" by (simp add: srv httpServer_def)
  show "WriteTimeout srv = 30 * Second" by (simp add: srv httpServer_def)
  show "ReadTimeout srv = 30 * Second" by (simp add: srv httpServer_def)
  show "30 * Second = 30000000000" by (simp add: Second_def)
qed

theorem tls_configuration_witness:
  "tlsListeners (fst (main (exampleEnv (exampleConfig\<lparr>UseLeHTTPS := True\<rparr>) []) newStorage))
     = [httpServer (exampleConfig\<lparr>UseLeHTTPS := True\<rparr>)
          (installRoutes (exampleConfig\<lparr>UseLeHTTPS := True\<rparr>) [])]
   \<and> MinVersion (TLSConfig (httpServer (exampleConfig\<lparr>UseLeHTTPS := True\<rparr>)
          (installRoutes (exampleConfig\<lparr>UseLeHTTPS := True\<rparr>) []))) = 0x0303
   \<and> length (CipherSuites (TLSConfig (httpServer (exampleConfig\<lparr>UseLeHTTPS := True\<rparr>)
          (installRoutes (exampleConfig\<lparr>UseLeHTTPS := True\<rparr>) [])))) = 6
   \<and> ReadTimeout (httpServer (exampleConfig\<lparr>UseLeHTTPS := True\<rparr>)
          (installRoutes (exampleConfig\<lparr>UseLeHTTPS := True\<rparr>) [])) = 30000000000"
proof -
  let ?cfg = "exampleConfig\<lparr>UseLeHTTPS := True\<rparr>"
  let ?e = "exampleEnv ?cfg []"
  let ?srv = "httpServer ?cfg (installRoutes ?cfg [])"
  have up: "loadConfig ?e = Some ?cfg \<and> startsUp ?e newStorage \<and> UseLeHTTPS ?cfg"
    by (simp add: startsUp_def loadTemplates_def example_defs)
  have ord: "map fst (order ?e (Assets newStorage)) = []"
    by (simp add: example_defs)
  from up ord tls_configuration [of ?srv ?e newStorage ?cfg]
  show ?thesis by simp
qed

subsection \<open>The listeners of a run\<close>




subsection \<open>A template that does not compile\<close>

text \<open>
  Claim C2, on the code. In store mode, when some template of the store is rejected by
  the parser (and no path is empty, so that the loop reaches the parser), \<open>main\<close> logs at
  critical severity and returns: no listener is started, and the process ends with exit
  code 0, not with a non-zero code. The sibling failure paths of \<open>main\<close> call
  \<open>os.Exit(1)\<close> after logging; this one only returns.
\<close>

theorem template_failure_exit:
  assumes "loadConfig e = Some cfg" and "TemplatesDir cfg = ''''"
    and "rangeOver (Templates s) (order e (Templates s))"
    and "Templates s '''' = None"
    and "Templates s p = Some c" and "\<not> parses e c"
  shows "main e s = ([Log LevelCritical], Exit 0)"
proof -
  let ?es = "order e (Templates s)"
  have mem: "(p, c) \<in> set ?es"
    using assms(3,5) by (simp add: rangeOver_iff)
  have ne: "q \<noteq> []" if "(q, d) \<in> set ?es" for q d
    using that assms(4) rangeOver_iff [OF assms(3), of q d] by auto
  have "storeTemplates (parses e) ?es [''faucet'' \<mapsto> ''''] = Inl ParseFailed"
    using ne mem assms(6) by (rule storeTemplates_fail)
  then show ?thesis
    using assms(1,2) by (simp add: main_def loadTemplates_def)
qed

theorem template_failure_exit_witness:
  "main (exampleEnv exampleConfig [''/index.html''])
        (Add ''template'' ''/index.html'' ''{{'' newStorage)
     = ([Log LevelCritical], Exit 0)"
proof -
  let ?e = "exampleEnv exampleConfig [''/index.html'']"
  let ?s = "Add ''template'' ''/index.html'' ''{{'' newStorage"
  have "loadConfig ?e = Some exampleConfig" "TemplatesDir exampleConfig = ''''"
    "rangeOver (Templates ?s) (order ?e (Templates ?s))"
    "Templates ?s '''' = None"
    "Templates ?s ''/index.html'' = Some ''{{''" "\<not> parses ?e ''{{''"
    by (simp_all add: rangeOver_def example_defs)
  then show ?thesis by (rule template_failure_exit)
qed

subsection \<open>The names of the compiled templates\<close>




section \<open>Properties of request serving\<close>

subsection \<open>Auxiliary facts\<close>



lemma staticAssetHandler_absent:
  "7 \<le> length (reqPath r) \<Longrightarrow> assetsNow (drop 7 (reqPath r)) = None \<Longrightarrow>
     staticAssetHandler assetsNow r = NothingWritten"
  by (simp add: staticAssetHandler_def Let_def)

lemma runHandler_no_content:
  "7 \<le> length (reqPath r) \<Longrightarrow> assetsNow (drop 7 (reqPath r)) = None \<Longrightarrow>
     runHandler assetsNow h r \<noteq> ServeContent name content"
  by (cases h) (simp_all add: runHandler_def staticAssetHandler_absent)

lemma ServeHTTP_no_content:
  assumes "7 \<le> length (reqPath r)" and "assetsNow (drop 7 (reqPath r)) = None"
  shows "ServeHTTP l routes assetsNow r \<noteq> ServeContent name content"
  using assms runHandler_no_content [of r assetsNow _ name content]
  by (simp add: ServeHTTP_def split: option.splits)




subsection \<open>A path that is not in the store\<close>

text \<open>
  Claim C6. For a request whose path is under the prefix \<open>/static\<close> and whose key (the
  path after the prefix) is not in the asset namespace when the request is served, the
  asset handler returns without writing anything: the response is the server's default
  with an empty body. Through the router, whatever the configuration and the installed
  routes, such a request is never answered by a \<open>ServeContent\<close> of store content. This
  holds for every method, GET among them.
\<close>

theorem unregistered_asset_not_served:
  assumes "take 7 (reqPath r) = ''/static''"
    and "assetsNow (drop 7 (reqPath r)) = None"
  shows "staticAssetHandler assetsNow r = NothingWritten
       \<and> reply l r (staticAssetHandler assetsNow r)
           = Some \<lparr>statusCode = 200, contentType = [], body = []\<rparr>
       \<and> (\<forall>name content.
             ServeHTTP l (installRoutes cfg assetKeys) assetsNow r \<noteq> ServeContent name content)"
proof -
  have "length (take 7 (reqPath r)) = 7" using assms(1) by simp
  then have len: "7 \<le> length (reqPath r)" by simp
  from len assms(2) have "staticAssetHandler assetsNow r = NothingWritten"
    by (rule staticAssetHandler_absent)
  moreover from len assms(2)
  have "ServeHTTP l (installRoutes cfg assetKeys) assetsNow r \<noteq> ServeContent name content"
    for name content
    by (rule ServeHTTP_no_content)
  ultimately show ?thesis by simp
qed

theorem unregistered_asset_not_served_witness:
  "staticAssetHandler (Assets (Add ''static'' ''/css/a.css'' ''body{}'' newStorage))
     \<lparr>reqMethod = ''GET'', reqPath = ''/static/css/b.css''\<rparr> = NothingWritten
   \<and> ServeHTTP exampleLib (installRoutes exampleConfig [''/css/a.css''])
        (Assets (Add ''static'' ''/css/a.css'' ''body{}'' newStorage))
        \<lparr>reqMethod = ''GET'', reqPath = ''/static/css/b.css''\<rparr>
      \<noteq> ServeContent ''b.css'' ''body{}''"
proof -
  let ?now = "Assets (Add ''static'' ''/css/a.css'' ''body{}'' newStorage)"
  let ?r = "\<lparr>reqMethod = ''GET'', reqPath = ''/static/css/b.css''\<rparr>"
  have hyps: "take 7 (reqPath ?r) = ''/static''" "?now (drop 7 (reqPath ?r)) = None"
    by (simp_all add: example_defs)
  from hyps unregistered_asset_not_served
    [of ?r ?now exampleLib exampleConfig "[''/css/a.css'']"]
  show ?thesis by blast
qed



subsection \<open>A path that is in the store\<close>




end
